theory Spec2Isabelle
  imports Main "HOL-Library.Word"
begin

section \<open>Data model\<close>

text \<open>
  Identifiers, file paths and diagnostics are Python \<open>str\<close> values that the code only
  compares, concatenates and stores: they are HOL strings. Message text is what
  \<open>stream_generator\<close> encodes to UTF-8, so it is kept as the list of its Unicode code
  points, and the encoded output is a list of bytes.
\<close>

type_synonym utext = "nat list"

type_synonym bytes = "8 word list"

text \<open>
  The exceptions the code raises or catches. \<open>LibError\<close> is any exception raised inside
  a library (loader, embedding, index, language model); it carries its \<open>str()\<close>.
\<close>

datatype exn =
    HTTPException nat string
  | ValueError string
  | KeyError string
  | UnicodeEncodeError nat nat
  | LibError string

text \<open>A turn of the history (\<open>HumanMessage\<close> and \<open>AIMessage\<close> of the library).\<close>

datatype base_message = HumanMessage utext | AIMessage utext

datatype meta_val = MStr string | MInt int

record document =
  page_content :: utext
  metadata :: "string \<rightharpoonup> meta_val"

text \<open>
  The retriever's \<open>search_kwargs\<close>: \<open>{"k": 2, "filter": {"asset": {"$in": [asset_id]}}}\<close>.
  A filter is a metadata field with the list its value must be in.
\<close>

datatype where_filter = FieldIn string "string list"

record search_kwargs =
  kw_k :: nat
  kw_filter :: where_filter

text \<open>
  The object \<open>setup_rag_chain\<close> returns: the retrieval chain, identified by its
  retriever's arguments, wrapped with the three message keys.
\<close>

record rag_pipeline =
  retriever :: search_kwargs
  input_messages_key :: string
  history_messages_key :: string
  output_messages_key :: string

text \<open>
  A value of \<open>self.store\<close>: a dict with the key \<open>"history"\<close> and, when \<open>start_chat\<close>
  made it, the keys \<open>"asset_id"\<close> and \<open>"rag_chain"\<close>.
\<close>

record chat_data =
  asset_id :: "string option"
  history :: "base_message list"
  rag_chain :: "rag_pipeline option"

type_synonym store = "string \<rightharpoonup> chat_data"

text \<open>The request bodies (pydantic models).\<close>

record ChatInput =
  ci_asset_id :: string

record MessageInput =
  chat_id :: string
  message :: utext

record FileInput =
  file_path :: string

text \<open>One increment of the chain's output stream: a dict that may carry the keys
  \<open>"context"\<close> and \<open>"answer"\<close>.\<close>

record chunk =
  chunk_context :: "document list option"
  chunk_answer :: "utext option"

datatype loader = TextLoader | PyPDFLoader | Docx2txtLoader

text \<open>
  The external collaborators, taken as parameters: the vector index (of an opaque
  state type \<open>'idx\<close>) with its search and its write, the document loaders, the text
  splitter, the two language model calls, a failure of the library constructors that
  \<open>setup_rag_chain\<close> calls, and the libraries' \<open>str()\<close> of an exception and of a message.
\<close>

record 'idx services =
  similarity_search :: "'idx \<Rightarrow> utext \<Rightarrow> search_kwargs \<Rightarrow> exn + document list"
  add_documents :: "'idx \<Rightarrow> document list \<Rightarrow> string list \<Rightarrow> 'idx \<times> exn option"
  loader_load :: "loader \<Rightarrow> string \<Rightarrow> exn + document list"
  split_documents :: "nat \<Rightarrow> nat \<Rightarrow> document list \<Rightarrow> document list"
  llm_contextualize :: "base_message list \<Rightarrow> utext \<Rightarrow> exn + utext"
  llm_answer :: "document list \<Rightarrow> base_message list \<Rightarrow> utext \<Rightarrow> utext list \<times> exn option"
  construct_error :: "exn option"
  lib_str :: "exn \<Rightarrow> string"
  msg_str :: "base_message \<Rightarrow> string"

section \<open>Exceptions and encoding\<close>

text \<open>\<open>str(e)\<close>: the message of a \<open>ValueError\<close>, the quoted key of a \<open>KeyError\<close>, and the
  library's rendering otherwise.\<close>

definition str_exc :: "'idx services \<Rightarrow> exn \<Rightarrow> string" where
  "str_exc env e =
     (case e of
        ValueError m \<Rightarrow> m
      | KeyError k \<Rightarrow> [CHR 0x27] @ k @ [CHR 0x27]
      | LibError m \<Rightarrow> m
      | _ \<Rightarrow> lib_str env e)"

text \<open>UTF-8 of one code point; a surrogate has none (\<open>str.encode\<close> raises). A number from
  0x110000 on is not a code point: no Python string holds it.\<close>

definition utf8_char :: "nat \<Rightarrow> bytes option" where
  "utf8_char cp =
     (if cp < 0x80 then Some [of_nat cp]
      else if cp < 0x800 then Some [of_nat (0xC0 + cp div 64), of_nat (0x80 + cp mod 64)]
      else if 0xD800 \<le> cp \<and> cp < 0xE000 then None
      else if cp < 0x10000 then
        Some [of_nat (0xE0 + cp div 4096), of_nat (0x80 + cp div 64 mod 64),
              of_nat (0x80 + cp mod 64)]
      else if cp < 0x110000 then
        Some [of_nat (0xF0 + cp div 262144), of_nat (0x80 + cp div 4096 mod 64),
              of_nat (0x80 + cp div 64 mod 64), of_nat (0x80 + cp mod 64)]
      else None)"

text \<open>\<open>s.encode('utf-8')\<close>, with the position of the first code point it cannot encode.\<close>

fun encode_from :: "nat \<Rightarrow> utext \<Rightarrow> exn + bytes" where
  "encode_from pos [] = Inr []"
| "encode_from pos (cp # s) =
     (case utf8_char cp of
        None \<Rightarrow> Inl (UnicodeEncodeError cp pos)
      | Some b \<Rightarrow>
          (case encode_from (Suc pos) s of
             Inl e \<Rightarrow> Inl e
           | Inr bs \<Rightarrow> Inr (b @ bs)))"

definition encode :: "utext \<Rightarrow> exn + bytes" where
  "encode s = encode_from 0 s"

section \<open>Chat service\<close>

definition setup_rag_chain :: "'idx services \<Rightarrow> string \<Rightarrow> exn + rag_pipeline" where
  "setup_rag_chain env a =
     (case construct_error env of
        Some e \<Rightarrow> Inl e
      | None \<Rightarrow>
          Inr \<lparr>retriever = \<lparr>kw_k = 2, kw_filter = FieldIn ''asset'' [a]\<rparr>,
               input_messages_key = ''input'',
               history_messages_key = ''chat_history'',
               output_messages_key = ''answer''\<rparr>)"

text \<open>\<open>get_session_history\<close> returns the history object of the store's entry; a missing
  entry is created with the key \<open>"history"\<close> only.\<close>

definition get_session_history :: "string \<Rightarrow> store \<Rightarrow> base_message list \<times> store" where
  "get_session_history session_id st =
     (case st session_id of
        None \<Rightarrow> ([], st(session_id \<mapsto> \<lparr>asset_id = None, history = [], rag_chain = None\<rparr>))
      | Some d \<Rightarrow> (history d, st))"

text \<open>\<open>start_chat\<close>, with the identifier \<open>uuid.uuid4()\<close> drew as an argument. The value of
  the \<open>"rag_chain"\<close> key is computed before the store is assigned.\<close>

definition start_chat ::
  "'idx services \<Rightarrow> string \<Rightarrow> ChatInput \<Rightarrow> store \<Rightarrow> (exn + string) \<times> store" where
  "start_chat env uuid chat_input st =
     (case setup_rag_chain env (ci_asset_id chat_input) of
        Inl e \<Rightarrow> (Inl (HTTPException 500 (''Failed to start chat: '' @ str_exc env e)), st)
      | Inr chain \<Rightarrow>
          (Inr uuid,
           st(uuid \<mapsto> \<lparr>asset_id = Some (ci_asset_id chat_input), history = [],
                        rag_chain = Some chain\<rparr>)))"

text \<open>\<open>chat_history\<close>: the membership test, then the rendering of every turn.\<close>

definition chat_history ::
  "'idx services \<Rightarrow> string \<Rightarrow> store \<Rightarrow> (exn + string list) \<times> store" where
  "chat_history env cid st =
     (case st cid of
        None \<Rightarrow> (Inl (HTTPException 400 ''Invalid chat ID''), st)
      | Some d \<Rightarrow> (Inr (map (msg_str env) (history d)), st))"

section \<open>Retrieval pipeline and streaming\<close>

text \<open>
  Modelled from the spec: the metadata filter of the vector index, a library
  (\<open>{"asset": {"$in": [a]}}\<close> holds of a chunk whose metadata field \<open>"asset"\<close> is a
  string of the list). The index itself stays a parameter (\<open>similarity_search\<close>).
\<close>

definition where_matches :: "where_filter \<Rightarrow> (string \<rightharpoonup> meta_val) \<Rightarrow> bool" where
  "where_matches f md =
     (case f of
        FieldIn key vals \<Rightarrow>
          (case md key of
             Some (MStr v) \<Rightarrow> v \<in> set vals
           | _ \<Rightarrow> False))"

text \<open>
  Modelled from the spec: the stages of the chain that \<open>setup_rag_chain\<close> composes from
  library calls (section 4.3). The query is rewritten from the history, the retriever
  is asked with the chain's own \<open>search_kwargs\<close>, and the answer stage streams its
  increments after one increment that carries the retrieved context.
\<close>

definition retrieve ::
  "'idx services \<Rightarrow> rag_pipeline \<Rightarrow> 'idx \<Rightarrow> base_message list \<Rightarrow> utext \<Rightarrow> exn + document list"
  where
  "retrieve env chain idx hist inp =
     (case llm_contextualize env hist inp of
        Inl e \<Rightarrow> Inl e
      | Inr q \<Rightarrow> similarity_search env idx q (retriever chain))"

text \<open>The increments of one invocation, and the exception that ended it, if any. A
  failure of the rewriting or of the retrieval comes before any increment.\<close>

definition invoke_chain ::
  "'idx services \<Rightarrow> rag_pipeline \<Rightarrow> 'idx \<Rightarrow> base_message list \<Rightarrow> utext \<Rightarrow> chunk list \<times> exn option"
  where
  "invoke_chain env chain idx hist inp =
     (case retrieve env chain idx hist inp of
        Inl e \<Rightarrow> ([], Some e)
      | Inr docs \<Rightarrow>
          (case llm_answer env docs hist inp of
             (frags, err) \<Rightarrow>
               (\<lparr>chunk_context = Some docs, chunk_answer = None\<rparr> #
                  map (\<lambda>f. \<lparr>chunk_context = None, chunk_answer = Some f\<rparr>) frags,
                err)))"

text \<open>
  Modelled from the spec: the history wrapper around the chain, a library class
  (\<open>RunnableWithMessageHistory\<close>). It resolves the history by session id through
  \<open>get_session_history\<close>, supplies it to the chain, and once the invocation completes
  appends the human turn and the assistant turn, whose content is the sum of the
  increments' \<open>"answer"\<close> fields, to the history object of the store. The spec leaves
  open what a cut-short invocation records; the library has it so: when the chain
  raises, nothing is appended; when the reader of the stream stops reading, the run
  ends with the increments handed out before the one in the reader's hands, and the
  two turns are appended if one of those increments carries an \<open>"answer"\<close>.
\<close>

definition rag_stream ::
  "'idx services \<Rightarrow> rag_pipeline \<Rightarrow> 'idx \<Rightarrow> utext \<Rightarrow> string \<Rightarrow> store \<Rightarrow>
     (chunk list \<times> exn option) \<times> store" where
  "rag_stream env chain idx inp session_id st =
     (case get_session_history session_id st of
        (hist, st1) \<Rightarrow> (invoke_chain env chain idx hist inp, st1))"

text \<open>The answer the wrapper records: the increments' \<open>"answer"\<close> fields, added up.\<close>

definition full_answer :: "chunk list \<Rightarrow> utext" where
  "full_answer chunks =
     concat (map (\<lambda>c. case chunk_answer c of None \<Rightarrow> [] | Some a \<Rightarrow> a) chunks)"

text \<open>The wrapper appends to the history object \<open>get_session_history\<close> returned, which is
  the one held in the store under the session id.\<close>

definition add_messages :: "string \<Rightarrow> base_message list \<Rightarrow> store \<Rightarrow> store" where
  "add_messages session_id msgs st =
     (case st session_id of
        None \<Rightarrow> st
      | Some d \<Rightarrow> st(session_id \<mapsto> d\<lparr>history := history d @ msgs\<rparr>))"

text \<open>What the wrapper appends when the reader stops after the increments \<open>seen\<close>.\<close>

definition closed_early :: "utext \<Rightarrow> chunk list \<Rightarrow> base_message list" where
  "closed_early inp seen =
     (if list_ex (\<lambda>c. chunk_answer c \<noteq> None) seen
      then [HumanMessage inp, AIMessage (full_answer seen)]
      else [])"

text \<open>
  The loop of \<open>stream_generator\<close> over the increments: one whose \<open>"answer"\<close> is missing or
  empty is skipped, any other is encoded and yielded. A failing \<open>encode\<close> ends the loop
  with what was yielded before. The result is the fragments yielded, the increments
  the loop got past, and the exception that ended it, if any.
\<close>

fun emit :: "chunk list \<Rightarrow> bytes list \<times> chunk list \<times> exn option" where
  "emit [] = ([], [], None)"
| "emit (c # cs) =
     (case chunk_answer c of
        None \<Rightarrow> (case emit cs of (fs, seen, err) \<Rightarrow> (fs, c # seen, err))
      | Some a \<Rightarrow>
          if a = [] then (case emit cs of (fs, seen, err) \<Rightarrow> (fs, c # seen, err))
          else
            (case encode a of
               Inl e \<Rightarrow> ([], [], Some e)
             | Inr b \<Rightarrow> (case emit cs of (fs, seen, err) \<Rightarrow> (b # fs, c # seen, err))))"

text \<open>
  \<open>stream_generator\<close>: the fragments yielded and, when the loop or the chain raised, the
  \<open>HTTPException\<close> raised after them; with the store as the wrapper leaves it: the two
  turns appended when the invocation completes, nothing when the chain raised, and
  \<open>closed_early\<close> when the loop raised and so stopped reading.
\<close>

definition stream_generator ::
  "'idx services \<Rightarrow> rag_pipeline \<Rightarrow> 'idx \<Rightarrow> MessageInput \<Rightarrow> store \<Rightarrow>
     (bytes list \<times> exn option) \<times> store" where
  "stream_generator env chain idx message_input st =
     (case rag_stream env chain idx (message message_input) (chat_id message_input) st of
        ((chunks, raised), st1) \<Rightarrow>
          (case emit chunks of
             (frags, seen, Some e) \<Rightarrow>
               ((frags, Some (HTTPException 500 (''Streaming error: '' @ str_exc env e))),
                add_messages (chat_id message_input)
                  (closed_early (message message_input) seen) st1)
           | (frags, seen, None) \<Rightarrow>
               (case raised of
                  Some e \<Rightarrow>
                    ((frags, Some (HTTPException 500 (''Streaming error: '' @ str_exc env e))),
                     st1)
                | None \<Rightarrow>
                    ((frags, None),
                     add_messages (chat_id message_input)
                       [HumanMessage (message message_input), AIMessage (full_answer chunks)]
                       st1))))"

text \<open>
  \<open>chat_message\<close>: \<open>Inl\<close> is the exception raised before the response starts, \<open>Inr\<close> the
  streamed response: its fragments and the exception \<open>generate_response\<close> raised after
  them, if any. An entry without the key \<open>"rag_chain"\<close> raises \<open>KeyError\<close> inside
  \<open>generate_response\<close>.
\<close>

definition chat_message ::
  "'idx services \<Rightarrow> 'idx \<Rightarrow> MessageInput \<Rightarrow> store \<Rightarrow>
     (exn + bytes list \<times> exn option) \<times> store" where
  "chat_message env idx message_input st =
     (case st (chat_id message_input) of
        None \<Rightarrow> (Inl (HTTPException 400 ''Invalid chat ID''), st)
      | Some chat_data \<Rightarrow>
          (case rag_chain chat_data of
             None \<Rightarrow>
               (Inr ([], Some (HTTPException 500
                   (''Error generating response: '' @ str_exc env (KeyError ''rag_chain'')))),
                st)
           | Some chain \<Rightarrow>
               (case stream_generator env chain idx message_input st of
                  ((frags, None), st') \<Rightarrow> (Inr (frags, None), st')
                | ((frags, Some e), st') \<Rightarrow>
                    (Inr (frags, Some (HTTPException 500
                        (''Error generating response: '' @ str_exc env e))),
                     st'))))"

text \<open>
  The stores the service passes through: \<open>self.store\<close> is empty when the service is
  built, and each request to one of the three endpoints takes one store to the next,
  whatever the request, its outcome and the index at that moment are.
\<close>

inductive reachable :: "'idx services \<Rightarrow> store \<Rightarrow> bool" for env :: "'idx services" where
  built: "reachable env Map.empty"
| started:
    "reachable env st \<Longrightarrow> start_chat env uuid chat_input st = (r, st') \<Longrightarrow> reachable env st'"
| messaged:
    "reachable env st \<Longrightarrow> chat_message env idx message_input st = (r, st') \<Longrightarrow>
     reachable env st'"
| looked_up:
    "reachable env st \<Longrightarrow> chat_history env cid st = (r, st') \<Longrightarrow> reachable env st'"

section \<open>Document service\<close>

text \<open>\<open>str.rfind\<close> of one character: the last index it stands at, or -1.\<close>

fun rfind_from :: "char \<Rightarrow> string \<Rightarrow> int \<Rightarrow> int \<Rightarrow> int" where
  "rfind_from c [] i found = found"
| "rfind_from c (x # xs) i found = rfind_from c xs (i + 1) (if x = c then i else found)"

definition rfind :: "char \<Rightarrow> string \<Rightarrow> int" where
  "rfind c p = rfind_from c p 0 (- 1)"

text \<open>The loop of \<open>os.path.splitext\<close> that skips the leading dots of the file name: it
  finds a character other than the dot before \<open>dotIndex\<close>, or it runs out.\<close>

function skip_leading_dots :: "string \<Rightarrow> int \<Rightarrow> int \<Rightarrow> bool" where
  "skip_leading_dots p filenameIndex dotIndex =
     (if filenameIndex < dotIndex then
        (if take 1 (drop (nat filenameIndex) p) \<noteq> ''.'' then True
         else skip_leading_dots p (filenameIndex + 1) dotIndex)
      else False)"
  by pat_completeness auto
termination
  by (relation "measure (\<lambda>(p, filenameIndex, dotIndex). nat (dotIndex - filenameIndex))") auto

text \<open>\<open>os.path.splitext\<close> (POSIX: the separator is \<open>/\<close>): the extension starts at the last
  dot of the last path component, unless only dots stand before it there.\<close>

definition splitext :: "string \<Rightarrow> string \<times> string" where
  "splitext p =
     (let sepIndex = rfind CHR ''/'' p;
          dotIndex = rfind CHR ''.'' p
      in if dotIndex > sepIndex \<and> skip_leading_dots p (sepIndex + 1) dotIndex
         then (take (nat dotIndex) p, drop (nat dotIndex) p)
         else (p, []))"

text \<open>The \<open>if\<close>/\<open>elif\<close> chain of \<open>_process_file\<close> that picks the loader by extension.\<close>

definition select_loader :: "string \<Rightarrow> exn + loader" where
  "select_loader file_extension =
     (if file_extension = ''.txt'' then Inr TextLoader
      else if file_extension = ''.pdf'' then Inr PyPDFLoader
      else if file_extension \<in> set [''.doc'', ''.docx''] then Inr Docx2txtLoader
      else Inl (ValueError (''Unsupported file type: '' @ file_extension)))"

text \<open>\<open>_process_file\<close>: the loader by extension, the load, the metadata update of every
  loaded document, the split (chunk size 1000, overlap 200).\<close>

definition process_file ::
  "'idx services \<Rightarrow> string \<Rightarrow> (string \<rightharpoonup> meta_val) \<Rightarrow> exn + document list" where
  "process_file env path md =
     (case select_loader (snd (splitext path)) of
        Inl e \<Rightarrow> Inl e
      | Inr ldr \<Rightarrow>
          (case loader_load env ldr path of
             Inl e \<Rightarrow> Inl e
           | Inr documents \<Rightarrow>
               Inr (split_documents env 1000 200
                      (if md \<noteq> Map.empty
                       then map (\<lambda>doc. doc\<lparr>metadata := metadata doc ++ md\<rparr>) documents
                       else documents))))"

text \<open>\<open>str(i)\<close> of a natural number.\<close>

definition digit_char :: "nat \<Rightarrow> char" where
  "digit_char d = ''0123456789'' ! d"

function str_nat :: "nat \<Rightarrow> string" where
  "str_nat n = (if n < 10 then [digit_char n] else str_nat (n div 10) @ [digit_char (n mod 10)])"
  by pat_completeness auto
termination
  by (relation "measure (\<lambda>n. n)") auto

declare str_nat.simps [simp del]

text \<open>
  What \<open>str(i)\<close> is measured against: a decimal numeral is a non-empty string of
  digits with no leading zero but in \<open>0\<close> itself, and its value is read from the most
  significant digit on.
\<close>

definition is_digit :: "char \<Rightarrow> bool" where
  "is_digit c = (c \<in> set ''0123456789'')"

definition decimal_value :: "string \<Rightarrow> nat" where
  "decimal_value s = foldl (\<lambda>acc c. 10 * acc + (of_char c - 48)) 0 s"

definition is_decimal :: "string \<Rightarrow> bool" where
  "is_decimal s = (s \<noteq> [] \<and> list_all is_digit s \<and> (hd s = CHR ''0'' \<longrightarrow> s = ''0''))"

text \<open>The ids of the chunks: \<open>[f"{asset_id}_{i}" for i in range(len(texts))]\<close>.\<close>

definition chunk_ids :: "string \<Rightarrow> nat \<Rightarrow> string list" where
  "chunk_ids new_asset_id n = map (\<lambda>i. new_asset_id @ ''_'' @ str_nat i) [0..<n]"

text \<open>\<open>save_to_chroma\<close>: the write to the index (the message it prints is left out).\<close>

definition save_to_chroma ::
  "'idx services \<Rightarrow> document list \<Rightarrow> string list \<Rightarrow> 'idx \<Rightarrow> 'idx \<times> exn option" where
  "save_to_chroma env chunks uuids idx = add_documents env idx chunks uuids"

text \<open>\<open>process_document\<close>, with the identifier \<open>uuid.uuid4()\<close> drew as an argument: the
  asset id or the \<open>HTTPException\<close>, and the index as the call leaves it.\<close>

definition process_document ::
  "'idx services \<Rightarrow> string \<Rightarrow> FileInput \<Rightarrow> 'idx \<Rightarrow> (exn + string) \<times> 'idx" where
  "process_document env new_asset_id file_input idx =
     (case process_file env (file_path file_input)
             [''asset'' \<mapsto> MStr new_asset_id, ''source'' \<mapsto> MStr (file_path file_input)] of
        Inl e \<Rightarrow> (Inl (HTTPException 400 (str_exc env e)), idx)
      | Inr texts \<Rightarrow>
          (case save_to_chroma env texts (chunk_ids new_asset_id (length texts)) idx of
             (idx', Some e) \<Rightarrow> (Inl (HTTPException 400 (str_exc env e)), idx')
           | (idx', None) \<Rightarrow> (Inr new_asset_id, idx')))"

section \<open>A small instance\<close>

text \<open>
  An instance of the collaborators on which the model runs: the index is a list of
  chunks with their ids, the search keeps the chunks its filter accepts, the loader
  returns one document, the splitter one chunk per document, and the answer stage
  three increments, the second one empty.
\<close>

definition demo_services :: "(string \<times> document) list services" where
  "demo_services =
     \<lparr>similarity_search =
        (\<lambda>idx q kw. Inr (take (kw_k kw)
           (filter (\<lambda>d. where_matches (kw_filter kw) (metadata d)) (map snd idx)))),
      add_documents = (\<lambda>idx docs ids. (idx @ zip ids docs, None)),
      loader_load =
        (\<lambda>ldr path. Inr [\<lparr>page_content = [104, 105], metadata = [''source'' \<mapsto> MStr path]\<rparr>]),
      split_documents = (\<lambda>size overlap docs. docs),
      llm_contextualize = (\<lambda>hist q. Inr q),
      llm_answer = (\<lambda>docs hist q. ([[79], [], [75, 233]], None)),
      construct_error = None,
      lib_str = (\<lambda>e. ''error''),
      msg_str = (\<lambda>m. case m of HumanMessage c \<Rightarrow> ''human'' | AIMessage c \<Rightarrow> ''ai'')\<rparr>"

definition demo_store :: store where
  "demo_store = snd (start_chat demo_services ''c1'' \<lparr>ci_asset_id = ''A''\<rparr> Map.empty)"

definition demo_index :: "(string \<times> document) list" where
  "demo_index =
     [(''B_0'', \<lparr>page_content = [104, 105],
                 metadata = [''asset'' \<mapsto> MStr ''B'', ''source'' \<mapsto> MStr ''b.txt'']\<rparr>),
      (''A_0'', \<lparr>page_content = [104, 105],
                 metadata = [''asset'' \<mapsto> MStr ''A'', ''source'' \<mapsto> MStr ''a.txt'']\<rparr>)]"

text \<open>A loader that returns two pages, and a splitter that cuts every document into six
  chunks, each with the metadata of its document.\<close>

definition demo_page :: "string \<Rightarrow> int \<Rightarrow> document" where
  "demo_page path n =
     \<lparr>page_content = [112], metadata = [''source'' \<mapsto> MStr path, ''page'' \<mapsto> MInt n]\<rparr>"

definition demo_pages :: "(string \<times> document) list services" where
  "demo_pages =
     demo_services
       \<lparr>loader_load := \<lambda>ldr path. Inr [demo_page path 0, demo_page path 1],
        split_documents := \<lambda>size overlap docs. concat (map (\<lambda>d. [d, d, d, d, d, d]) docs)\<rparr>"

section \<open>Properties\<close>

subsection \<open>The small instance, evaluated\<close>

lemma demo_store_c1:
  "demo_store ''c1'' =
     Some \<lparr>asset_id = Some ''A'', history = [],
           rag_chain = Some \<lparr>retriever = \<lparr>kw_k = 2, kw_filter = FieldIn ''asset'' [''A'']\<rparr>,
               input_messages_key = ''input'',
               history_messages_key = ''chat_history'',
               output_messages_key = ''answer''\<rparr>\<rparr>"
  by (simp add: demo_store_def start_chat_def setup_rag_chain_def demo_services_def)

lemma demo_store_other: "k \<noteq> ''c1'' \<Longrightarrow> demo_store k = None"
  by (simp add: demo_store_def start_chat_def setup_rag_chain_def demo_services_def)

lemma demo_chat_message:
  "chat_message demo_services demo_index \<lparr>chat_id = ''c1'', message = [104, 105]\<rparr> demo_store =
     (Inr ([[79], [75, 195, 169]], None),
      demo_store(''c1'' \<mapsto> \<lparr>asset_id = Some ''A'',
         history = [HumanMessage [104, 105], AIMessage [79, 75, 233]],
         rag_chain = Some \<lparr>retriever = \<lparr>kw_k = 2, kw_filter = FieldIn ''asset'' [''A'']\<rparr>,
               input_messages_key = ''input'',
               history_messages_key = ''chat_history'',
               output_messages_key = ''answer''\<rparr>\<rparr>))"
  by (simp add: chat_message_def demo_store_c1 stream_generator_def rag_stream_def
      get_session_history_def invoke_chain_def retrieve_def demo_services_def demo_index_def
      where_matches_def encode_def utf8_char_def add_messages_def full_answer_def)

subsection \<open>Session store\<close>

text \<open>
  C9. The history resolver \<open>get_session_history\<close> returns for every session id: it never
  raises. An id that is absent from the store gets a fresh entry that holds an empty
  history and neither an asset id nor a pipeline, and that empty history is returned;
  for an id that is present the store is left as it is and the entry's history is
  returned. No other entry of the store changes.
\<close>

theorem get_session_history_never_fails:
  "\<exists>h st'. get_session_history sid st = (h, st') \<and>
     map_option history (st' sid) = Some h \<and>
     (\<forall>k. k \<noteq> sid \<longrightarrow> st' k = st k) \<and>
     (st sid = None \<longrightarrow>
        h = [] \<and> st' sid = Some \<lparr>asset_id = None, history = [], rag_chain = None\<rparr>) \<and>
     (st sid \<noteq> None \<longrightarrow> st' = st)"
  by (cases "st sid") (simp_all add: get_session_history_def)

theorem get_session_history_never_fails_witness:
  "demo_store ''ghost'' = None \<and>
   get_session_history ''ghost'' demo_store =
     ([], demo_store(''ghost'' \<mapsto> \<lparr>asset_id = None, history = [], rag_chain = None\<rparr>)) \<and>
   demo_store ''c1'' \<noteq> None \<and>
   get_session_history ''c1'' demo_store = ([], demo_store)"
proof -
  have absent: "demo_store ''ghost'' = None"
    by (simp add: demo_store_other)
  have present: "demo_store ''c1'' \<noteq> None"
    by (simp add: demo_store_c1)
  from get_session_history_never_fails [of "''ghost''" demo_store] absent
  have a: "get_session_history ''ghost'' demo_store =
     ([], demo_store(''ghost'' \<mapsto> \<lparr>asset_id = None, history = [], rag_chain = None\<rparr>))"
    by (auto simp: fun_eq_iff)
  from get_session_history_never_fails [of "''c1''" demo_store] present
  have b: "get_session_history ''c1'' demo_store = ([], demo_store)"
    by (auto simp: demo_store_c1)
  from absent present a b show ?thesis by simp
qed

text \<open>
  C10. \<open>chat_history\<close> is read-only: whatever the chat id, the store after the call is
  the store before it (the same ids, and for each the same asset id, turns and
  pipeline); for a known id the result is the rendering of the session's turns in
  order.
\<close>

theorem chat_history_read_only:
  "snd (chat_history env cid st) = st \<and>
   (\<forall>d. st cid = Some d \<longrightarrow>
      fst (chat_history env cid st) = Inr (map (msg_str env) (history d)))"
  by (simp add: chat_history_def split: option.splits)

theorem chat_history_read_only_witness:
  "demo_store ''c1'' \<noteq> None \<and> chat_history demo_services ''c1'' demo_store = (Inr [], demo_store)"
  using chat_history_read_only [of demo_services "''c1''" demo_store]
  by (simp add: demo_store_c1 prod_eq_iff)

text \<open>
  C4. \<open>chat_message\<close> and \<open>chat_history\<close> test the session id first. For a string that
  is not a key of the store both raise \<open>HTTPException(400, "Invalid chat ID")\<close>, whatever
  the collaborators and the index are, and leave the store unchanged: no pipeline is
  invoked and no history is read. For a key of the store the message operation starts
  its streamed response and the history operation returns. An id that \<open>start_chat\<close>
  returned is a key of the store it left.
\<close>

theorem session_id_checked_first:
  "(st s = None \<longrightarrow>
      chat_message env idx \<lparr>chat_id = s, message = m\<rparr> st =
        (Inl (HTTPException 400 ''Invalid chat ID''), st) \<and>
      chat_history env s st = (Inl (HTTPException 400 ''Invalid chat ID''), st)) \<and>
   (st s \<noteq> None \<longrightarrow>
      (\<exists>r st'. chat_message env idx \<lparr>chat_id = s, message = m\<rparr> st = (Inr r, st')) \<and>
      (\<exists>h. chat_history env s st = (Inr h, st))) \<and>
   (\<forall>u ci st0 st1. start_chat env u ci st0 = (Inr s, st1) \<longrightarrow> st1 s \<noteq> None)"
proof (intro conjI impI allI)
  assume "st s = None"
  then show "chat_message env idx \<lparr>chat_id = s, message = m\<rparr> st =
      (Inl (HTTPException 400 ''Invalid chat ID''), st)"
    by (simp add: chat_message_def)
next
  assume "st s = None"
  then show "chat_history env s st = (Inl (HTTPException 400 ''Invalid chat ID''), st)"
    by (simp add: chat_history_def)
next
  assume "st s \<noteq> None"
  then obtain d where d: "st s = Some d" by auto
  show "\<exists>r st'. chat_message env idx \<lparr>chat_id = s, message = m\<rparr> st = (Inr r, st')"
  proof (cases "rag_chain d")
    case None
    with d show ?thesis by (simp add: chat_message_def)
  next
    case (Some chain)
    obtain frags err st' where
      "stream_generator env chain idx \<lparr>chat_id = s, message = m\<rparr> st = ((frags, err), st')"
      by (metis prod.exhaust)
    with d Some show ?thesis
      by (cases err) (simp_all add: chat_message_def)
  qed
next
  assume "st s \<noteq> None"
  then show "\<exists>h. chat_history env s st = (Inr h, st)"
    by (auto simp: chat_history_def)
next
  fix u ci st0 st1
  assume "start_chat env u ci st0 = (Inr s, st1)"
  then show "st1 s \<noteq> None"
    by (auto simp: start_chat_def split: sum.splits)
qed

theorem session_id_checked_first_witness:
  "demo_store ''nope'' = None \<and>
   chat_message demo_services demo_index \<lparr>chat_id = ''nope'', message = [104, 105]\<rparr> demo_store =
     (Inl (HTTPException 400 ''Invalid chat ID''), demo_store) \<and>
   chat_history demo_services ''nope'' demo_store =
     (Inl (HTTPException 400 ''Invalid chat ID''), demo_store) \<and>
   start_chat demo_services ''c1'' \<lparr>ci_asset_id = ''A''\<rparr> Map.empty = (Inr ''c1'', demo_store) \<and>
   demo_store ''c1'' \<noteq> None \<and>
   fst (chat_message demo_services demo_index \<lparr>chat_id = ''c1'', message = [104, 105]\<rparr> demo_store) =
     Inr ([[79], [75, 195, 169]], None) \<and>
   chat_history demo_services ''c1'' demo_store = (Inr [], demo_store)"
proof -
  have absent: "demo_store ''nope'' = None"
    by (simp add: demo_store_other)
  have started:
    "start_chat demo_services ''c1'' \<lparr>ci_asset_id = ''A''\<rparr> Map.empty = (Inr ''c1'', demo_store)"
    by (simp add: demo_store_def start_chat_def setup_rag_chain_def demo_services_def)
  note rejected = session_id_checked_first
    [of demo_store "''nope''" demo_services demo_index "[104, 105]"]
  note accepted = session_id_checked_first
    [of demo_store "''c1''" demo_services demo_index "[104, 105]"]
  from accepted started have present: "demo_store ''c1'' \<noteq> None"
    by blast
  from rejected absent present accepted started show ?thesis
    by (simp add: demo_chat_message chat_history_def demo_store_c1)
qed

text \<open>
  C8. \<open>start_chat\<close> succeeds for every asset id, also one that no ingestion produced,
  as long as the library constructors of \<open>setup_rag_chain\<close> raise nothing (they do not
  look at the asset id): it returns the session id it generated and stores under it
  the asset id, an empty history and a pipeline whose retriever asks for 2 chunks
  with the \<open>"asset"\<close> field in the one-element list of that asset id. The index is not
  an argument of the operation: nothing checks that the asset exists.
\<close>

theorem start_chat_stores_session:
  "construct_error env = None \<Longrightarrow>
   start_chat env u ci st =
     (Inr u,
      st(u \<mapsto> \<lparr>asset_id = Some (ci_asset_id ci), history = [],
         rag_chain = Some \<lparr>retriever = \<lparr>kw_k = 2, kw_filter = FieldIn ''asset'' [ci_asset_id ci]\<rparr>,
               input_messages_key = ''input'',
               history_messages_key = ''chat_history'',
               output_messages_key = ''answer''\<rparr>\<rparr>))"
  by (simp add: start_chat_def setup_rag_chain_def)

theorem start_chat_stores_session_witness:
  "construct_error demo_services = None \<and>
   start_chat demo_services ''c2'' \<lparr>ci_asset_id = ''no such asset''\<rparr> demo_store =
     (Inr ''c2'',
      demo_store(''c2'' \<mapsto> \<lparr>asset_id = Some ''no such asset'', history = [],
         rag_chain = Some \<lparr>retriever = \<lparr>kw_k = 2, kw_filter = FieldIn ''asset'' [''no such asset'']\<rparr>,
               input_messages_key = ''input'',
               history_messages_key = ''chat_history'',
               output_messages_key = ''answer''\<rparr>\<rparr>))"
proof -
  have ok: "construct_error demo_services = None"
    by (simp add: demo_services_def)
  from start_chat_stores_session [OF ok, of "''c2''" "\<lparr>ci_asset_id = ''no such asset''\<rparr>" demo_store] ok
  show ?thesis by simp
qed

subsection \<open>Paths\<close>

lemma splitext_report_csv: "splitext ''data/report.csv'' = (''data/report'', ''.csv'')"
  by (simp add: splitext_def rfind_def)

lemma splitext_a_txt: "splitext ''a.txt'' = (''a'', ''.txt'')"
  by (simp add: splitext_def rfind_def)

subsection \<open>Document service\<close>

text \<open>
  C5. For a file path whose extension (as \<open>os.path.splitext\<close> computes it) is none of
  \<open>.txt\<close>, \<open>.pdf\<close>, \<open>.doc\<close>, \<open>.docx\<close>, \<open>_process_file\<close> raises the unsupported-type
  \<open>ValueError\<close>, \<open>process_document\<close> reports it as an \<open>HTTPException\<close> with that message,
  and the index after the call is the index before it: nothing was written.
\<close>

theorem unsupported_extension_rejected:
  "snd (splitext (file_path fi)) \<notin> {''.txt'', ''.pdf'', ''.doc'', ''.docx''} \<Longrightarrow>
   process_file env (file_path fi) md =
     Inl (ValueError (''Unsupported file type: '' @ snd (splitext (file_path fi)))) \<and>
   process_document env u fi idx =
     (Inl (HTTPException 400 (''Unsupported file type: '' @ snd (splitext (file_path fi)))), idx)"
  by (simp add: process_document_def process_file_def select_loader_def str_exc_def)

theorem unsupported_extension_rejected_witness:
  "snd (splitext ''data/report.csv'') \<notin> {''.txt'', ''.pdf'', ''.doc'', ''.docx''} \<and>
   process_document demo_services ''u1'' \<lparr>file_path = ''data/report.csv''\<rparr> demo_index =
     (Inl (HTTPException 400 ''Unsupported file type: .csv''), demo_index)"
proof -
  have ext: "snd (splitext (file_path \<lparr>file_path = ''data/report.csv''\<rparr>)) \<notin>
      {''.txt'', ''.pdf'', ''.doc'', ''.docx''}"
    by (simp add: splitext_report_csv)
  from unsupported_extension_rejected [OF ext, of demo_services Map.empty "''u1''" demo_index] ext
  show ?thesis by (simp add: splitext_report_csv)
qed

subsection \<open>Chunk identifiers and metadata\<close>

lemma digit_char_inj:
  assumes "a < 10" "b < 10" "digit_char a = digit_char b"
  shows "a = b"
proof -
  have cases: "\<And>d. d < 10 \<Longrightarrow> d \<in> {0, 1, 2, 3, 4, 5, 6, 7, 8, 9 :: nat}"
    by auto
  from cases [OF assms(1)] cases [OF assms(2)] assms(3) show ?thesis
    by (auto simp: digit_char_def)
qed

lemma str_nat_small: "n < 10 \<Longrightarrow> str_nat n = [digit_char n]"
  by (subst str_nat.simps) simp

lemma str_nat_large:
  "\<not> n < 10 \<Longrightarrow> str_nat n = str_nat (n div 10) @ [digit_char (n mod 10)]"
  by (subst str_nat.simps) simp

lemma str_nat_nonempty: "str_nat n \<noteq> []"
  by (cases "n < 10") (simp_all add: str_nat_small str_nat_large)

lemma str_nat_length_small: "n < 10 \<Longrightarrow> length (str_nat n) = 1"
  by (simp add: str_nat_small)

lemma str_nat_length_large:
  assumes "\<not> n < 10"
  shows "2 \<le> length (str_nat n)"
proof -
  have "1 \<le> length (str_nat (n div 10))"
    using str_nat_nonempty [of "n div 10"] by (simp add: Suc_le_eq)
  then have "2 \<le> length (str_nat (n div 10) @ [digit_char (n mod 10)])"
    by simp
  then show ?thesis
    by (simp only: str_nat_large [OF assms])
qed

lemma str_nat_inj: "str_nat n = str_nat m \<Longrightarrow> n = m"
proof (induction n arbitrary: m rule: str_nat.induct)
  case (1 n)
  show ?case
  proof (cases "n < 10")
    case small_n: True
    show ?thesis
    proof (cases "m < 10")
      case True
      from "1.prems" have "[digit_char n] = [digit_char m]"
        by (simp only: str_nat_small [OF small_n] str_nat_small [OF True])
      then have "digit_char n = digit_char m"
        by simp
      with small_n True show ?thesis
        by (rule digit_char_inj)
    next
      case False
      from str_nat_length_small [OF small_n] str_nat_length_large [OF False] "1.prems"
      show ?thesis by simp
    qed
  next
    case large_n: False
    show ?thesis
    proof (cases "m < 10")
      case True
      from str_nat_length_small [OF True] str_nat_length_large [OF large_n] "1.prems"
      show ?thesis by simp
    next
      case False
      from "1.prems"
      have "str_nat (n div 10) @ [digit_char (n mod 10)] =
          str_nat (m div 10) @ [digit_char (m mod 10)]"
        by (simp only: str_nat_large [OF large_n] str_nat_large [OF False])
      then have eq: "str_nat (n div 10) = str_nat (m div 10)"
        and dig: "digit_char (n mod 10) = digit_char (m mod 10)"
        by simp_all
      from "1.IH" [OF large_n eq] have "n div 10 = m div 10" .
      moreover have "n mod 10 = m mod 10"
        by (rule digit_char_inj [OF _ _ dig]) simp_all
      ultimately show ?thesis
        by (metis div_mult_mod_eq)
    qed
  qed
qed

lemma chunk_ids_length: "length (chunk_ids a n) = n"
  by (simp add: chunk_ids_def)

lemma chunk_ids_nth: "i < n \<Longrightarrow> chunk_ids a n ! i = a @ ''_'' @ str_nat i"
  by (simp add: chunk_ids_def)

lemma chunk_ids_distinct: "distinct (chunk_ids a n)"
  unfolding chunk_ids_def
  by (rule distinct_map [THEN iffD2]) (auto simp: inj_on_def dest: str_nat_inj)

lemma process_file_metadata:
  assumes split: "\<forall>size overlap docs. \<forall>c \<in> set (split_documents env size overlap docs).
      \<exists>d \<in> set docs. metadata c = metadata d"
    and ok: "process_file env path md = Inr texts"
    and key: "md key = Some v"
    and c: "c \<in> set texts"
  shows "metadata c key = Some v"
proof -
  from ok obtain ldr documents where
    texts: "texts = split_documents env 1000 200
       (if md \<noteq> Map.empty then map (\<lambda>doc. doc\<lparr>metadata := metadata doc ++ md\<rparr>) documents
        else documents)"
    by (auto simp: process_file_def split: sum.splits)
  from key have "md \<noteq> Map.empty" by auto
  with texts have "texts = split_documents env 1000 200
      (map (\<lambda>doc. doc\<lparr>metadata := metadata doc ++ md\<rparr>) documents)"
    by simp
  with split c obtain d where
    "d \<in> set (map (\<lambda>doc. doc\<lparr>metadata := metadata doc ++ md\<rparr>) documents)"
    "metadata c = metadata d"
    by blast
  with key show ?thesis
    by (auto simp: map_add_def)
qed

lemma digit_char_digit:
  assumes "d < 10"
  shows "is_digit (digit_char d) \<and> of_char (digit_char d) - 48 = d \<and>
    (digit_char d = CHR ''0'' \<longrightarrow> d = 0)"
proof -
  from assms have "d \<in> {0, 1, 2, 3, 4, 5, 6, 7, 8, 9 :: nat}"
    by auto
  then show ?thesis
    by (auto simp: digit_char_def is_digit_def)
qed

lemma decimal_value_snoc:
  "decimal_value (s @ [c]) = 10 * decimal_value s + (of_char c - 48)"
  by (simp add: decimal_value_def)

lemma str_nat_value: "decimal_value (str_nat n) = n"
proof (induction n rule: str_nat.induct)
  case (1 n)
  show ?case
  proof (cases "n < 10")
    case True
    with digit_char_digit [OF True] show ?thesis
      by (simp add: str_nat_small decimal_value_def)
  next
    case False
    have "n mod 10 < 10" by simp
    from digit_char_digit [OF this] "1.IH" [OF False] show ?thesis
      by (simp add: str_nat_large [OF False] decimal_value_snoc)
  qed
qed

lemma str_nat_digits: "list_all is_digit (str_nat n)"
proof (induction n rule: str_nat.induct)
  case (1 n)
  show ?case
  proof (cases "n < 10")
    case True
    with digit_char_digit [OF True] show ?thesis
      by (simp add: str_nat_small)
  next
    case False
    have "n mod 10 < 10" by simp
    from digit_char_digit [OF this] "1.IH" [OF False] show ?thesis
      by (simp add: str_nat_large [OF False])
  qed
qed

lemma str_nat_leading: "hd (str_nat n) = CHR ''0'' \<Longrightarrow> n = 0"
proof (induction n rule: str_nat.induct)
  case (1 n)
  show ?case
  proof (cases "n < 10")
    case True
    with digit_char_digit [OF True] "1.prems" show ?thesis
      by (simp add: str_nat_small)
  next
    case False
    from "1.prems" str_nat_nonempty [of "n div 10"]
    have "hd (str_nat (n div 10)) = CHR ''0''"
      by (simp add: str_nat_large [OF False])
    from "1.IH" [OF False this] False show ?thesis
      by simp
  qed
qed

lemma str_nat_zero: "str_nat 0 = ''0''"
  by (simp add: str_nat_small digit_char_def)

lemma str_nat_decimal: "is_decimal (str_nat n) \<and> decimal_value (str_nat n) = n"
  using str_nat_leading [of n] str_nat_zero
  by (auto simp: is_decimal_def str_nat_nonempty str_nat_digits str_nat_value)

lemma chunk_ids_ordinal:
  "i < n \<Longrightarrow> \<exists>s. chunk_ids a n ! i = a @ ''_'' @ s \<and> is_decimal s \<and> decimal_value s = i"
  using str_nat_decimal [of i] by (auto simp: chunk_ids_nth)

text \<open>
  C6. When \<open>process_document\<close> succeeds it returns the asset id it generated, and the
  chunks it wrote, say \<open>n\<close> of them, all carry \<open>"asset"\<close> = that asset id and
  \<open>"source"\<close> = the input file path in their metadata (the splitter hands every chunk
  the metadata of the document it was cut from), and were written under one id per
  chunk: the id at position \<open>i\<close>, for \<open>i\<close> from 0 to \<open>n-1\<close>, is the asset id, an
  underscore and the decimal numeral of \<open>i\<close>, and no two ids are equal.
\<close>

theorem ingested_chunks_tagged:
  assumes split: "\<forall>size overlap docs. \<forall>c \<in> set (split_documents env size overlap docs).
      \<exists>d \<in> set docs. metadata c = metadata d"
    and ok: "process_document env u fi idx = (Inr a, idx')"
  shows "a = u \<and>
    (\<exists>texts.
       process_file env (file_path fi)
         [''asset'' \<mapsto> MStr u, ''source'' \<mapsto> MStr (file_path fi)] = Inr texts \<and>
       add_documents env idx texts (chunk_ids u (length texts)) = (idx', None) \<and>
       (\<forall>c \<in> set texts.
          metadata c ''asset'' = Some (MStr u) \<and>
          metadata c ''source'' = Some (MStr (file_path fi))) \<and>
       length (chunk_ids u (length texts)) = length texts \<and>
       (\<forall>i < length texts. \<exists>s.
          chunk_ids u (length texts) ! i = u @ ''_'' @ s \<and>
          is_decimal s \<and> decimal_value s = i) \<and>
       distinct (chunk_ids u (length texts)))"
proof -
  let ?md = "[''asset'' \<mapsto> MStr u, ''source'' \<mapsto> MStr (file_path fi)]"
  from ok obtain texts where
    pf: "process_file env (file_path fi) ?md = Inr texts"
    and wr: "add_documents env idx texts (chunk_ids u (length texts)) = (idx', None)"
    and a: "a = u"
    by (auto simp: process_document_def save_to_chroma_def
        split: sum.splits prod.splits option.splits)
  have tagged: "\<forall>c \<in> set texts.
      metadata c ''asset'' = Some (MStr u) \<and> metadata c ''source'' = Some (MStr (file_path fi))"
  proof
    fix c assume c: "c \<in> set texts"
    have "metadata c ''asset'' = Some (MStr u)"
      by (rule process_file_metadata [OF split pf _ c]) simp
    moreover have "metadata c ''source'' = Some (MStr (file_path fi))"
      by (rule process_file_metadata [OF split pf _ c]) simp
    ultimately show "metadata c ''asset'' = Some (MStr u) \<and>
        metadata c ''source'' = Some (MStr (file_path fi))" ..
  qed
  have ordinals: "\<forall>i < length texts. \<exists>s.
      chunk_ids u (length texts) ! i = u @ ''_'' @ s \<and> is_decimal s \<and> decimal_value s = i"
    using chunk_ids_ordinal by blast
  from a pf wr tagged ordinals show ?thesis
    by (simp add: chunk_ids_length chunk_ids_distinct)
qed

lemma demo_pages_split_keeps_metadata:
  "\<forall>size overlap docs. \<forall>c \<in> set (split_documents demo_pages size overlap docs).
      \<exists>d \<in> set docs. metadata c = metadata d"
  by (auto simp: demo_pages_def demo_services_def)

lemma demo_index_length: "length demo_index = 2"
  by (simp add: demo_index_def)

lemma splitext_a_pdf: "splitext ''a.pdf'' = (''a'', ''.pdf'')"
  by (simp add: splitext_def rfind_def)

lemma chunk_ids_twelve:
  "chunk_ids ''u1'' 12 =
     [''u1_0'', ''u1_1'', ''u1_2'', ''u1_3'', ''u1_4'', ''u1_5'', ''u1_6'', ''u1_7'', ''u1_8'',
      ''u1_9'', ''u1_10'', ''u1_11'']"
  by (simp add: chunk_ids_def str_nat.simps digit_char_def upt_rec)

lemma demo_pages_process_file:
  "process_file demo_pages ''a.pdf'' [''asset'' \<mapsto> MStr ''u1'', ''source'' \<mapsto> MStr ''a.pdf''] =
     Inr (concat (map (\<lambda>d. [d, d, d, d, d, d])
       [demo_page ''a.pdf'' 0
          \<lparr>metadata := metadata (demo_page ''a.pdf'' 0) ++
             [''asset'' \<mapsto> MStr ''u1'', ''source'' \<mapsto> MStr ''a.pdf'']\<rparr>,
        demo_page ''a.pdf'' 1
          \<lparr>metadata := metadata (demo_page ''a.pdf'' 1) ++
             [''asset'' \<mapsto> MStr ''u1'', ''source'' \<mapsto> MStr ''a.pdf'']\<rparr>]))"
  by (simp add: process_file_def select_loader_def splitext_a_pdf demo_pages_def
      demo_services_def)

lemma demo_pages_process_document:
  "process_document demo_pages ''u1'' \<lparr>file_path = ''a.pdf''\<rparr> demo_index =
     (Inr ''u1'',
      demo_index @
        zip (chunk_ids ''u1'' 12)
          (concat (map (\<lambda>d. [d, d, d, d, d, d])
             [demo_page ''a.pdf'' 0
                \<lparr>metadata := metadata (demo_page ''a.pdf'' 0) ++
                   [''asset'' \<mapsto> MStr ''u1'', ''source'' \<mapsto> MStr ''a.pdf'']\<rparr>,
              demo_page ''a.pdf'' 1
                \<lparr>metadata := metadata (demo_page ''a.pdf'' 1) ++
                   [''asset'' \<mapsto> MStr ''u1'', ''source'' \<mapsto> MStr ''a.pdf'']\<rparr>])))"
proof -
  have len: "length (concat (map (\<lambda>d. [d, d, d, d, d, d])
       [demo_page ''a.pdf'' 0
          \<lparr>metadata := metadata (demo_page ''a.pdf'' 0) ++
             [''asset'' \<mapsto> MStr ''u1'', ''source'' \<mapsto> MStr ''a.pdf'']\<rparr>,
        demo_page ''a.pdf'' 1
          \<lparr>metadata := metadata (demo_page ''a.pdf'' 1) ++
             [''asset'' \<mapsto> MStr ''u1'', ''source'' \<mapsto> MStr ''a.pdf'']\<rparr>])) = 12"
    by simp
  have written: "add_documents demo_pages idx docs ids = (idx @ zip ids docs, None)"
    for idx docs ids
    by (simp add: demo_pages_def demo_services_def)
  show ?thesis
    unfolding process_document_def FileInput.select_convs demo_pages_process_file
      sum.case save_to_chroma_def len written
    by simp
qed

theorem ingested_chunks_tagged_witness:
  "fst (process_document demo_pages ''u1'' \<lparr>file_path = ''a.pdf''\<rparr> demo_index) = Inr ''u1'' \<and>
   map fst (drop 2 (snd (process_document demo_pages ''u1'' \<lparr>file_path = ''a.pdf''\<rparr> demo_index))) =
     [''u1_0'', ''u1_1'', ''u1_2'', ''u1_3'', ''u1_4'', ''u1_5'', ''u1_6'', ''u1_7'', ''u1_8'',
      ''u1_9'', ''u1_10'', ''u1_11''] \<and>
   list_all (\<lambda>(i, c). metadata c ''asset'' = Some (MStr ''u1'') \<and>
       metadata c ''source'' = Some (MStr ''a.pdf''))
     (drop 2 (snd (process_document demo_pages ''u1'' \<lparr>file_path = ''a.pdf''\<rparr> demo_index))) \<and>
   map (\<lambda>(i, c). metadata c ''page'')
     (drop 2 (snd (process_document demo_pages ''u1'' \<lparr>file_path = ''a.pdf''\<rparr> demo_index))) =
     [Some (MInt 0), Some (MInt 0), Some (MInt 0), Some (MInt 0), Some (MInt 0), Some (MInt 0),
      Some (MInt 1), Some (MInt 1), Some (MInt 1), Some (MInt 1), Some (MInt 1), Some (MInt 1)] \<and>
   distinct
     [''u1_0'', ''u1_1'', ''u1_2'', ''u1_3'', ''u1_4'', ''u1_5'', ''u1_6'', ''u1_7'', ''u1_8'',
      ''u1_9'', ''u1_10'', ''u1_11''] \<and>
   map decimal_value [''0'', ''1'', ''9'', ''10'', ''11''] = [0, 1, 9, 10, 11]"
proof -
  from ingested_chunks_tagged [OF demo_pages_split_keeps_metadata demo_pages_process_document]
  obtain texts where
    pf: "process_file demo_pages ''a.pdf''
         [''asset'' \<mapsto> MStr ''u1'', ''source'' \<mapsto> MStr ''a.pdf''] = Inr texts"
    and dist: "distinct (chunk_ids ''u1'' (length texts))"
    by auto
  from pf have "length texts = 12"
    by (auto simp: demo_pages_process_file)
  with dist have "distinct (chunk_ids ''u1'' 12)"
    by simp
  then have distinct_ids: "distinct
     [''u1_0'', ''u1_1'', ''u1_2'', ''u1_3'', ''u1_4'', ''u1_5'', ''u1_6'', ''u1_7'', ''u1_8'',
      ''u1_9'', ''u1_10'', ''u1_11'']"
    by (simp only: chunk_ids_twelve)
  have decoded: "map decimal_value [''0'', ''1'', ''9'', ''10'', ''11''] = [0, 1, 9, 10, 11]"
    by (simp add: decimal_value_def)
  have ids: "map fst (drop 2 (snd (process_document demo_pages ''u1''
      \<lparr>file_path = ''a.pdf''\<rparr> demo_index))) = chunk_ids ''u1'' 12"
    by (simp add: demo_pages_process_document demo_index_length chunk_ids_twelve)
  have tags: "list_all (\<lambda>(i, c). metadata c ''asset'' = Some (MStr ''u1'') \<and>
       metadata c ''source'' = Some (MStr ''a.pdf''))
     (drop 2 (snd (process_document demo_pages ''u1'' \<lparr>file_path = ''a.pdf''\<rparr> demo_index))) \<and>
   map (\<lambda>(i, c). metadata c ''page'')
     (drop 2 (snd (process_document demo_pages ''u1'' \<lparr>file_path = ''a.pdf''\<rparr> demo_index))) =
     [Some (MInt 0), Some (MInt 0), Some (MInt 0), Some (MInt 0), Some (MInt 0), Some (MInt 0),
      Some (MInt 1), Some (MInt 1), Some (MInt 1), Some (MInt 1), Some (MInt 1), Some (MInt 1)]"
    by (simp add: demo_pages_process_document demo_index_length chunk_ids_twelve demo_page_def)
  from distinct_ids decoded ids tags show ?thesis
    by (simp only: chunk_ids_twelve demo_pages_process_document fst_conv)
qed

text \<open>
  C7, as the code has it. Every error of \<open>process_document\<close> is caught by its one
  handler and reported as an \<open>HTTPException\<close> of status 400 whose detail is the
  message of the original error: a failure of the loader (the index is left
  unchanged), and a failure of the write to the index (the index is left as the
  failed write left it).
\<close>

theorem process_document_errors_are_400:
  "(\<forall>x. fst (process_document env u fi idx) = Inl x \<longrightarrow>
      (\<exists>e. x = HTTPException 400 (str_exc env e))) \<and>
   (\<forall>ldr e. select_loader (snd (splitext (file_path fi))) = Inr ldr \<and>
      loader_load env ldr (file_path fi) = Inl e \<longrightarrow>
      process_document env u fi idx = (Inl (HTTPException 400 (str_exc env e)), idx)) \<and>
   (\<forall>texts idx' e.
      process_file env (file_path fi)
        [''asset'' \<mapsto> MStr u, ''source'' \<mapsto> MStr (file_path fi)] = Inr texts \<and>
      add_documents env idx texts (chunk_ids u (length texts)) = (idx', Some e) \<longrightarrow>
      process_document env u fi idx = (Inl (HTTPException 400 (str_exc env e)), idx'))"
proof (intro conjI allI impI)
  fix x
  assume "fst (process_document env u fi idx) = Inl x"
  then show "\<exists>e. x = HTTPException 400 (str_exc env e)"
    by (auto simp: process_document_def split: sum.splits prod.splits option.splits)
next
  fix ldr e
  assume "select_loader (snd (splitext (file_path fi))) = Inr ldr \<and>
      loader_load env ldr (file_path fi) = Inl e"
  then show "process_document env u fi idx = (Inl (HTTPException 400 (str_exc env e)), idx)"
    by (simp add: process_document_def process_file_def)
next
  fix texts idx' e
  assume "process_file env (file_path fi)
        [''asset'' \<mapsto> MStr u, ''source'' \<mapsto> MStr (file_path fi)] = Inr texts \<and>
      add_documents env idx texts (chunk_ids u (length texts)) = (idx', Some e)"
  then show "process_document env u fi idx = (Inl (HTTPException 400 (str_exc env e)), idx')"
    by (simp add: process_document_def save_to_chroma_def)
qed

theorem process_document_errors_are_400_witness:
  "select_loader (snd (splitext ''a.txt'')) = Inr TextLoader \<and>
   process_document
     (demo_services\<lparr>loader_load := \<lambda>ldr path. Inl (LibError ''no such file'')\<rparr>)
     ''u1'' \<lparr>file_path = ''a.txt''\<rparr> demo_index =
     (Inl (HTTPException 400 ''no such file''), demo_index) \<and>
   process_document
     (demo_services\<lparr>add_documents :=
        \<lambda>idx docs ids. (idx @ take 0 (zip ids docs), Some (LibError ''index write failed''))\<rparr>)
     ''u1'' \<lparr>file_path = ''a.txt''\<rparr> demo_index =
     (Inl (HTTPException 400 ''index write failed''), demo_index)"
proof -
  have sel: "select_loader (snd (splitext ''a.txt'')) = Inr TextLoader"
    by (simp add: select_loader_def splitext_a_txt)
  note a = process_document_errors_are_400
    [of "demo_services\<lparr>loader_load := \<lambda>ldr path. Inl (LibError ''no such file'')\<rparr>"
        "''u1''" "\<lparr>file_path = ''a.txt''\<rparr>" demo_index]
  note b = process_document_errors_are_400
    [of "demo_services\<lparr>add_documents :=
        \<lambda>idx docs ids. (idx @ take 0 (zip ids docs), Some (LibError ''index write failed''))\<rparr>"
        "''u1''" "\<lparr>file_path = ''a.txt''\<rparr>" demo_index]
  have a': "process_document
     (demo_services\<lparr>loader_load := \<lambda>ldr path. Inl (LibError ''no such file'')\<rparr>)
     ''u1'' \<lparr>file_path = ''a.txt''\<rparr> demo_index =
     (Inl (HTTPException 400 ''no such file''), demo_index)"
    using a sel by (simp add: demo_services_def str_exc_def)
  have b': "process_document
     (demo_services\<lparr>add_documents :=
        \<lambda>idx docs ids. (idx @ take 0 (zip ids docs), Some (LibError ''index write failed''))\<rparr>)
     ''u1'' \<lparr>file_path = ''a.txt''\<rparr> demo_index =
     (Inl (HTTPException 400 ''index write failed''), demo_index)"
    using b sel by (simp add: demo_services_def str_exc_def process_file_def)
  from sel a' b' show ?thesis by simp
qed

text \<open>
  C7 as stated (a 5xx status) fails: with a loader that raises, \<open>process_document\<close>
  reports status 400.
\<close>

theorem process_document_loader_failure_is_400:
  "process_document
     (demo_services\<lparr>loader_load := \<lambda>ldr path. Inl (LibError ''cannot parse'')\<rparr>)
     ''u1'' \<lparr>file_path = ''a.txt''\<rparr> demo_index =
     (Inl (HTTPException 400 ''cannot parse''), demo_index) \<and> (400 :: nat) < 500"
  by (simp add: process_document_def process_file_def select_loader_def splitext_a_txt
      demo_services_def str_exc_def)

subsection \<open>Encoding and streaming\<close>

lemma utf8_char_nonempty: "utf8_char cp = Some b \<Longrightarrow> b \<noteq> []"
  by (auto simp: utf8_char_def split: if_splits)

lemma encode_from_position: "encode_from p s = Inr b \<Longrightarrow> encode_from q s = Inr b"
proof (induction s arbitrary: p q b)
  case Nil
  then show ?case by simp
next
  case (Cons cp s)
  from Cons.prems obtain c xs where
    c: "utf8_char cp = Some c" and xs: "encode_from (Suc p) s = Inr xs" and b: "b = c @ xs"
    by (auto split: option.splits sum.splits)
  from Cons.IH [OF xs, of "Suc q"] c b show ?case
    by simp
qed

lemma encode_from_append:
  "encode_from p a = Inr x \<Longrightarrow> encode_from q b = Inr y \<Longrightarrow> encode_from r (a @ b) = Inr (x @ y)"
proof (induction a arbitrary: p r x)
  case Nil
  then show ?case by (simp add: encode_from_position [of q b y r])
next
  case (Cons cp a)
  from Cons.prems(1) obtain c xs where
    c: "utf8_char cp = Some c" and xs: "encode_from (Suc p) a = Inr xs" and x: "x = c @ xs"
    by (auto split: option.splits sum.splits)
  from Cons.IH [OF xs Cons.prems(2), of "Suc r"] c x show ?case
    by simp
qed

lemma encode_append:
  "encode a = Inr x \<Longrightarrow> encode b = Inr y \<Longrightarrow> encode (a @ b) = Inr (x @ y)"
  unfolding encode_def by (rule encode_from_append)

lemma encode_nonempty: "encode a = Inr b \<Longrightarrow> a \<noteq> [] \<Longrightarrow> b \<noteq> []"
  by (cases a) (auto simp: encode_def split: option.splits sum.splits dest: utf8_char_nonempty)

lemma full_answer_Cons:
  "full_answer (c # cs) = (case chunk_answer c of None \<Rightarrow> [] | Some a \<Rightarrow> a) @ full_answer cs"
  by (simp add: full_answer_def)

lemma emit_seen:
  "emit chunks = (frags, seen, err) \<Longrightarrow>
     encode (full_answer seen) = Inr (concat frags) \<and>
     (\<forall>f \<in> set frags. f \<noteq> []) \<and>
     (frags = [] \<longleftrightarrow> full_answer seen = []) \<and>
     (err = None \<longrightarrow> seen = chunks)"
proof (induction chunks arbitrary: frags seen err)
  case Nil
  then show ?case by (simp add: full_answer_def encode_def)
next
  case (Cons c cs)
  obtain fs rest e where rec: "emit cs = (fs, rest, e)"
    by (cases "emit cs") auto
  note IH = Cons.IH [OF rec]
  show ?case
  proof (cases "chunk_answer c")
    case None
    with Cons.prems rec have "frags = fs" "seen = c # rest" "err = e"
      by simp_all
    with IH None show ?thesis by (simp add: full_answer_Cons)
  next
    case (Some a)
    show ?thesis
    proof (cases "a = []")
      case True
      with Some Cons.prems rec have "frags = fs" "seen = c # rest" "err = e"
        by simp_all
      with IH Some True show ?thesis by (simp add: full_answer_Cons)
    next
      case nonempty: False
      show ?thesis
      proof (cases "encode a")
        case (Inl x)
        with Some nonempty Cons.prems have "frags = []" "seen = []" "err = Some x"
          by simp_all
        then show ?thesis by (simp add: full_answer_def encode_def)
      next
        case (Inr b)
        with Some nonempty Cons.prems rec
        have frags: "frags = b # fs" and seen: "seen = c # rest" and err: "err = e"
          by simp_all
        from IH have
          enc: "encode (full_answer rest) = Inr (concat fs)"
          and ne: "\<forall>f \<in> set fs. f \<noteq> []"
          and all: "e = None \<longrightarrow> rest = cs"
          by blast+
        from encode_append [OF Inr enc] Some
        have "encode (full_answer seen) = Inr (concat frags)"
          by (simp add: full_answer_Cons frags seen)
        moreover from encode_nonempty [OF Inr nonempty] ne frags
        have "\<forall>f \<in> set frags. f \<noteq> []"
          by simp
        moreover from nonempty Some frags seen have "frags = [] \<longleftrightarrow> full_answer seen = []"
          by (simp add: full_answer_Cons)
        moreover from all seen err have "err = None \<longrightarrow> seen = c # cs"
          by simp
        ultimately show ?thesis by blast
      qed
    qed
  qed
qed

lemma chat_message_known:
  assumes known: "st (chat_id mi) = Some d"
    and chain: "rag_chain d = Some chain"
    and inv: "invoke_chain env chain idx (history d) (message mi) = (chunks, raised)"
    and em: "emit chunks = (frags, seen, err)"
  shows "chat_message env idx mi st =
    (case err of
       Some e \<Rightarrow>
         (Inr (frags, Some (HTTPException 500 (''Error generating response: '' @
            str_exc env (HTTPException 500 (''Streaming error: '' @ str_exc env e))))),
          add_messages (chat_id mi) (closed_early (message mi) seen) st)
     | None \<Rightarrow>
         (case raised of
            Some e \<Rightarrow>
              (Inr (frags, Some (HTTPException 500 (''Error generating response: '' @
                 str_exc env (HTTPException 500 (''Streaming error: '' @ str_exc env e))))),
               st)
          | None \<Rightarrow>
              (Inr (frags, None),
               add_messages (chat_id mi)
                 [HumanMessage (message mi), AIMessage (full_answer chunks)] st)))"
proof -
  from known inv
  have rs: "rag_stream env chain idx (message mi) (chat_id mi) st = ((chunks, raised), st)"
    by (simp add: rag_stream_def get_session_history_def)
  show ?thesis
    by (cases err; cases raised)
      (simp_all add: chat_message_def known chain stream_generator_def rs em)
qed

lemma add_messages_known:
  "st sid = Some d \<Longrightarrow> add_messages sid msgs st = st(sid \<mapsto> d\<lparr>history := history d @ msgs\<rparr>)"
  by (simp add: add_messages_def)

lemma add_messages_none: "st sid = Some d \<Longrightarrow> add_messages sid [] st = st"
  by (simp add: add_messages_def fun_eq_iff)

lemma chat_message_completed:
  assumes known: "st (chat_id mi) = Some d"
    and completed: "chat_message env idx mi st = (Inr (frags, None), st')"
  shows "\<exists>chain chunks.
    rag_chain d = Some chain \<and>
    invoke_chain env chain idx (history d) (message mi) = (chunks, None) \<and>
    emit chunks = (frags, chunks, None) \<and>
    st' = st(chat_id mi \<mapsto>
      d\<lparr>history := history d @ [HumanMessage (message mi), AIMessage (full_answer chunks)]\<rparr>)"
proof -
  from known completed obtain chain where chain: "rag_chain d = Some chain"
    by (cases "rag_chain d") (auto simp: chat_message_def)
  obtain chunks raised where inv:
    "invoke_chain env chain idx (history d) (message mi) = (chunks, raised)"
    by (cases "invoke_chain env chain idx (history d) (message mi)")
  obtain fs seen err where em: "emit chunks = (fs, seen, err)"
    by (cases "emit chunks") auto
  from chat_message_known [where st = st and mi = mi, OF known chain inv em] completed
  have "err = None" "raised = None" "fs = frags"
    and st': "st' = add_messages (chat_id mi)
      [HumanMessage (message mi), AIMessage (full_answer chunks)] st"
    by (auto split: option.splits)
  moreover from emit_seen [OF em] \<open>err = None\<close> have "seen = chunks"
    by blast
  ultimately show ?thesis
    using chain inv em add_messages_known [where st = st and sid = "chat_id mi", OF known] by auto
qed

text \<open>
  C2. For a known session, a message/response cycle that completes (the response is
  streamed to its end and nothing is raised) leaves that session with exactly two
  more turns after all the prior ones: the human turn first, whose content is the
  submitted message verbatim, then the assistant turn. The session's asset id and
  pipeline, and every other session, are as they were.
\<close>

theorem cycle_appends_human_then_assistant:
  assumes known: "st (chat_id mi) = Some d"
    and completed: "chat_message env idx mi st = (Inr (frags, None), st')"
  shows "\<exists>ans.
    st' (chat_id mi) =
      Some (d\<lparr>history := history d @ [HumanMessage (message mi), AIMessage ans]\<rparr>) \<and>
    (\<forall>k. k \<noteq> chat_id mi \<longrightarrow> st' k = st k)"
  using chat_message_completed [OF known completed] by auto


theorem cycle_appends_human_then_assistant_witness:
  "demo_store ''c1'' =
     Some \<lparr>asset_id = Some ''A'', history = [],
           rag_chain = Some \<lparr>retriever = \<lparr>kw_k = 2, kw_filter = FieldIn ''asset'' [''A'']\<rparr>,
               input_messages_key = ''input'',
               history_messages_key = ''chat_history'',
               output_messages_key = ''answer''\<rparr>\<rparr> \<and>
   fst (chat_message demo_services demo_index \<lparr>chat_id = ''c1'', message = [104, 105]\<rparr> demo_store) =
     Inr ([[79], [75, 195, 169]], None) \<and>
   map_option history
     (snd (chat_message demo_services demo_index \<lparr>chat_id = ''c1'', message = [104, 105]\<rparr>
        demo_store) ''c1'') =
     Some [HumanMessage [104, 105], AIMessage [79, 75, 233]]"
proof -
  have known: "demo_store (chat_id \<lparr>chat_id = ''c1'', message = [104, 105]\<rparr>) =
     Some \<lparr>asset_id = Some ''A'', history = [],
           rag_chain = Some \<lparr>retriever = \<lparr>kw_k = 2, kw_filter = FieldIn ''asset'' [''A'']\<rparr>,
               input_messages_key = ''input'',
               history_messages_key = ''chat_history'',
               output_messages_key = ''answer''\<rparr>\<rparr>"
    by (simp add: demo_store_c1)
  from cycle_appends_human_then_assistant [OF known demo_chat_message]
  have "\<exists>ans. map_option history
     (snd (chat_message demo_services demo_index \<lparr>chat_id = ''c1'', message = [104, 105]\<rparr>
        demo_store) ''c1'') = Some [HumanMessage [104, 105], AIMessage ans]"
    by (auto simp: demo_chat_message)
  then show ?thesis
    by (simp add: demo_chat_message demo_store_c1)
qed




subsection \<open>Retrieval\<close>

lemma where_matches_asset:
  "where_matches (FieldIn ''asset'' [a]) md \<longleftrightarrow> md ''asset'' = Some (MStr a)"
  by (auto simp: where_matches_def split: option.splits meta_val.splits)

lemma add_messages_frame:
  "add_messages sid msgs st k = Some d \<Longrightarrow>
   \<exists>d0. st k = Some d0 \<and> asset_id d0 = asset_id d \<and> rag_chain d0 = rag_chain d"
  by (auto simp: add_messages_def split: option.splits if_splits)

lemma chat_message_store:
  assumes "chat_message env idx mi st = (r, st')"
  shows "\<exists>msgs. st' = add_messages (chat_id mi) msgs st"
proof (cases "st (chat_id mi)")
  case None
  with assms have "st' = st" by (simp add: chat_message_def)
  with None have "st' = add_messages (chat_id mi) [] st"
    by (simp add: add_messages_def)
  then show ?thesis ..
next
  case known: (Some d)
  note unchanged = add_messages_none [where st = st and sid = "chat_id mi", OF known]
  show ?thesis
  proof (cases "rag_chain d")
    case None
    with known assms have "st' = st" by (simp add: chat_message_def)
    with unchanged have "st' = add_messages (chat_id mi) [] st" by simp
    then show ?thesis ..
  next
    case (Some chain)
    obtain chunks raised where inv:
      "invoke_chain env chain idx (history d) (message mi) = (chunks, raised)"
      by (cases "invoke_chain env chain idx (history d) (message mi)")
    obtain fs seen stopped where em: "emit chunks = (fs, seen, stopped)"
      by (cases "emit chunks") auto
    from chat_message_known [where st = st and mi = mi, OF known Some inv em] assms unchanged
    show ?thesis
      by (cases stopped; cases raised) (auto, metis+)
  qed
qed

lemma reachable_sessions:
  "reachable env st \<Longrightarrow> st sid = Some d \<Longrightarrow> asset_id d = Some a \<Longrightarrow>
   \<exists>chain. rag_chain d = Some chain \<and> setup_rag_chain env a = Inr chain"
proof (induction arbitrary: sid d a rule: reachable.induct)
  case built
  then show ?case by simp
next
  case (started st uuid chat_input r st')
  show ?case
  proof (cases "setup_rag_chain env (ci_asset_id chat_input)")
    case (Inl e)
    with started.hyps(2) have "st' = st" by (simp add: start_chat_def)
    with started.IH started.prems show ?thesis by blast
  next
    case (Inr chain)
    with started.hyps(2) have st': "st' = st(uuid \<mapsto>
        \<lparr>asset_id = Some (ci_asset_id chat_input), history = [], rag_chain = Some chain\<rparr>)"
      by (simp add: start_chat_def)
    show ?thesis
    proof (cases "sid = uuid")
      case True
      with st' started.prems Inr show ?thesis by auto
    next
      case False
      with st' started.prems have "st sid = Some d" by simp
      with started.IH started.prems show ?thesis by blast
    qed
  qed
next
  case (messaged st idx message_input r st')
  from chat_message_store [OF messaged.hyps(2)] obtain msgs where
    "st' = add_messages (chat_id message_input) msgs st" ..
  with messaged.prems(1) add_messages_frame obtain d0 where
    "st sid = Some d0" "asset_id d0 = asset_id d" "rag_chain d0 = rag_chain d"
    by blast
  with messaged.IH [of sid d0 a] messaged.prems(2) show ?case by simp
next
  case (looked_up st cid r st')
  from looked_up.hyps(2) have "st' = st"
    by (auto simp: chat_history_def split: option.splits)
  with looked_up.IH looked_up.prems show ?case by blast
qed

lemma str_exc_same: "lib_str env' = lib_str env \<Longrightarrow> str_exc env' e = str_exc env e"
  by (cases e) (simp_all add: str_exc_def)

lemma chat_message_same:
  assumes known: "st (chat_id mi) = Some d"
    and chain: "rag_chain d = Some chain"
    and str: "lib_str env' = lib_str env"
    and inv: "invoke_chain env' chain idx (history d) (message mi) =
      invoke_chain env chain idx (history d) (message mi)"
  shows "chat_message env' idx mi st = chat_message env idx mi st"
proof -
  obtain chunks raised where c:
    "invoke_chain env chain idx (history d) (message mi) = (chunks, raised)"
    by (cases "invoke_chain env chain idx (history d) (message mi)")
  obtain fs seen stopped where em: "emit chunks = (fs, seen, stopped)"
    by (cases "emit chunks") auto
  from c inv have c': "invoke_chain env' chain idx (history d) (message mi) = (chunks, raised)"
    by simp
  show ?thesis
    unfolding chat_message_known [where st = st and mi = mi, OF known chain c em]
      chat_message_known [where st = st and mi = mi, OF known chain c' em]
    by (cases stopped; cases raised) (simp_all add: str_exc_same [OF str])
qed

lemma chain_retriever:
  "setup_rag_chain env a = Inr chain \<Longrightarrow>
   retriever chain = \<lparr>kw_k = 2, kw_filter = FieldIn ''asset'' [a]\<rparr>"
  by (auto simp: setup_rag_chain_def split: option.splits)

lemma retrieve_scoped:
  assumes index: "\<forall>idx q kw docs. similarity_search env idx q kw = Inr docs \<longrightarrow>
      length docs \<le> kw_k kw \<and> (\<forall>d \<in> set docs. where_matches (kw_filter kw) (metadata d))"
    and kw: "retriever chain = \<lparr>kw_k = 2, kw_filter = FieldIn ''asset'' [a]\<rparr>"
    and found: "retrieve env chain idx hist inp = Inr docs"
  shows "length docs \<le> 2 \<and> (\<forall>x \<in> set docs. metadata x ''asset'' = Some (MStr a))"
proof -
  from found kw obtain q where
    "similarity_search env idx q \<lparr>kw_k = 2, kw_filter = FieldIn ''asset'' [a]\<rparr> = Inr docs"
    by (auto simp: retrieve_def split: sum.splits)
  with index have "length docs \<le> kw_k \<lparr>kw_k = 2, kw_filter = FieldIn ''asset'' [a]\<rparr> \<and>
      (\<forall>x \<in> set docs.
         where_matches (kw_filter \<lparr>kw_k = 2, kw_filter = FieldIn ''asset'' [a]\<rparr>) (metadata x))"
    by blast
  then show ?thesis
    by (simp add: where_matches_asset)
qed

text \<open>
  C1. Take any store the service can be in and any session in it that is bound to
  asset id \<open>a\<close>. Its pipeline asks the index for \<open>k = 2\<close> chunks under the filter \<open>"asset"\<close>
  in \<open>[a]\<close>, and that is the only request a message to the session makes: an index that
  answers this request as before answers the whole message as before, whatever it
  does with any other request. With an index that honours its contract (at most \<open>k\<close>
  chunks, each accepted by the filter), every context the session's stream carries
  holds at most 2 chunks, each tagged with \<open>a\<close> and so none tagged with another asset
  id, and the response to the message does not depend on what the answer stage would
  do with chunks of another asset: none reaches it.
\<close>

theorem retrieval_scoped_to_asset:
  assumes index: "\<forall>idx q kw docs. similarity_search env idx q kw = Inr docs \<longrightarrow>
      length docs \<le> kw_k kw \<and> (\<forall>d \<in> set docs. where_matches (kw_filter kw) (metadata d))"
    and reach: "reachable env st"
    and session: "st sid = Some d"
    and bound: "asset_id d = Some a"
  shows "map_option retriever (rag_chain d) =
      Some \<lparr>kw_k = 2, kw_filter = FieldIn ''asset'' [a]\<rparr> \<and>
    (\<forall>search'.
       (\<forall>i q. search' i q \<lparr>kw_k = 2, kw_filter = FieldIn ''asset'' [a]\<rparr> =
          similarity_search env i q \<lparr>kw_k = 2, kw_filter = FieldIn ''asset'' [a]\<rparr>) \<longrightarrow>
       chat_message (env\<lparr>similarity_search := search'\<rparr>) idx \<lparr>chat_id = sid, message = m\<rparr> st =
         chat_message env idx \<lparr>chat_id = sid, message = m\<rparr> st) \<and>
    (\<forall>answer'.
       (\<forall>docs hist q.
          length docs \<le> 2 \<and> (\<forall>x \<in> set docs. metadata x ''asset'' = Some (MStr a)) \<longrightarrow>
          answer' docs hist q = llm_answer env docs hist q) \<longrightarrow>
       chat_message (env\<lparr>llm_answer := answer'\<rparr>) idx \<lparr>chat_id = sid, message = m\<rparr> st =
         chat_message env idx \<lparr>chat_id = sid, message = m\<rparr> st) \<and>
    (\<forall>chain c docs.
       rag_chain d = Some chain \<and>
       c \<in> set (fst (fst (rag_stream env chain idx m sid st))) \<and>
       chunk_context c = Some docs \<longrightarrow>
       length docs \<le> 2 \<and>
       (\<forall>x \<in> set docs. metadata x ''asset'' = Some (MStr a) \<and>
          (\<forall>b. b \<noteq> a \<longrightarrow> metadata x ''asset'' \<noteq> Some (MStr b))))"
proof -
  let ?mi = "\<lparr>chat_id = sid, message = m\<rparr>"
  from reachable_sessions [OF reach session bound] obtain chain where
    chain: "rag_chain d = Some chain" and made: "setup_rag_chain env a = Inr chain"
    by blast
  note kw = chain_retriever [OF made]
  have known: "st (chat_id ?mi) = Some d"
    using session by simp
  have requested: "chat_message (env\<lparr>similarity_search := search'\<rparr>) idx ?mi st =
      chat_message env idx ?mi st"
    if same: "\<forall>i q. search' i q \<lparr>kw_k = 2, kw_filter = FieldIn ''asset'' [a]\<rparr> =
      similarity_search env i q \<lparr>kw_k = 2, kw_filter = FieldIn ''asset'' [a]\<rparr>"
    for search'
  proof (rule chat_message_same
      [where st = st and mi = "\<lparr>chat_id = sid, message = m\<rparr>", OF known chain])
    show "lib_str (env\<lparr>similarity_search := search'\<rparr>) = lib_str env"
      by simp
    have r: "retrieve (env\<lparr>similarity_search := search'\<rparr>) chain idx (history d) m =
        retrieve env chain idx (history d) m"
      using same
      by (cases "llm_contextualize env (history d) m") (simp_all add: retrieve_def kw)
    show "invoke_chain (env\<lparr>similarity_search := search'\<rparr>) chain idx (history d) (message ?mi) =
        invoke_chain env chain idx (history d) (message ?mi)"
      by (cases "retrieve env chain idx (history d) m") (simp_all add: invoke_chain_def r)
  qed
  have isolated: "chat_message (env\<lparr>llm_answer := answer'\<rparr>) idx ?mi st =
      chat_message env idx ?mi st"
    if same: "\<forall>docs hist q.
      length docs \<le> 2 \<and> (\<forall>x \<in> set docs. metadata x ''asset'' = Some (MStr a)) \<longrightarrow>
      answer' docs hist q = llm_answer env docs hist q"
    for answer'
  proof (rule chat_message_same
      [where st = st and mi = "\<lparr>chat_id = sid, message = m\<rparr>", OF known chain])
    show "lib_str (env\<lparr>llm_answer := answer'\<rparr>) = lib_str env"
      by simp
    have r: "retrieve (env\<lparr>llm_answer := answer'\<rparr>) chain idx (history d) m =
        retrieve env chain idx (history d) m"
      by (cases "llm_contextualize env (history d) m") (simp_all add: retrieve_def)
    show "invoke_chain (env\<lparr>llm_answer := answer'\<rparr>) chain idx (history d) (message ?mi) =
        invoke_chain env chain idx (history d) (message ?mi)"
    proof (cases "retrieve env chain idx (history d) m")
      case (Inl e)
      with r show ?thesis by (simp add: invoke_chain_def)
    next
      case (Inr docs)
      from retrieve_scoped [OF index kw Inr] same
      have "answer' docs (history d) m = llm_answer env docs (history d) m"
        by blast
      with r Inr show ?thesis by (simp add: invoke_chain_def)
    qed
  qed
  have streamed: "length docs \<le> 2 \<and>
      (\<forall>x \<in> set docs. metadata x ''asset'' = Some (MStr a) \<and>
         (\<forall>b. b \<noteq> a \<longrightarrow> metadata x ''asset'' \<noteq> Some (MStr b)))"
    if "rag_chain d = Some chain' \<and>
      c \<in> set (fst (fst (rag_stream env chain' idx m sid st))) \<and>
      chunk_context c = Some docs"
    for chain' c docs
  proof -
    from that chain have c: "c \<in> set (fst (invoke_chain env chain idx (history d) m))"
      and docs: "chunk_context c = Some docs"
      using session by (simp_all add: rag_stream_def get_session_history_def)
    show ?thesis
    proof (cases "retrieve env chain idx (history d) m")
      case (Inl e)
      with c show ?thesis by (simp add: invoke_chain_def)
    next
      case (Inr found)
      with c docs have "docs = found"
        by (auto simp: invoke_chain_def split: prod.splits)
      with retrieve_scoped [OF index kw Inr] show ?thesis by simp
    qed
  qed
  from chain kw have "map_option retriever (rag_chain d) =
      Some \<lparr>kw_k = 2, kw_filter = FieldIn ''asset'' [a]\<rparr>"
    by simp
  with requested isolated streamed show ?thesis
    by blast
qed

lemma demo_search_honours_filter:
  "\<forall>idx q kw docs. similarity_search demo_services idx q kw = Inr docs \<longrightarrow>
      length docs \<le> kw_k kw \<and> (\<forall>d \<in> set docs. where_matches (kw_filter kw) (metadata d))"
  by (auto simp: demo_services_def dest: in_set_takeD)

lemma demo_reachable: "reachable demo_services demo_store"
proof -
  have "start_chat demo_services ''c1'' \<lparr>ci_asset_id = ''A''\<rparr> Map.empty = (Inr ''c1'', demo_store)"
    by (simp add: demo_store_def start_chat_def setup_rag_chain_def demo_services_def)
  with reachable.built show ?thesis
    by (rule reachable.started)
qed

lemma demo_rag_stream:
  "fst (fst (rag_stream demo_services
      \<lparr>retriever = \<lparr>kw_k = 2, kw_filter = FieldIn ''asset'' [''A'']\<rparr>,
       input_messages_key = ''input'',
       history_messages_key = ''chat_history'',
       output_messages_key = ''answer''\<rparr> demo_index [104, 105] ''c1'' demo_store)) =
     [\<lparr>chunk_context = Some [\<lparr>page_content = [104, 105],
          metadata = [''asset'' \<mapsto> MStr ''A'', ''source'' \<mapsto> MStr ''a.txt'']\<rparr>],
        chunk_answer = None\<rparr>,
      \<lparr>chunk_context = None, chunk_answer = Some [79]\<rparr>,
      \<lparr>chunk_context = None, chunk_answer = Some []\<rparr>,
      \<lparr>chunk_context = None, chunk_answer = Some [75, 233]\<rparr>]"
  by (simp add: rag_stream_def get_session_history_def demo_store_c1 invoke_chain_def
      retrieve_def demo_services_def demo_index_def where_matches_def)

theorem retrieval_scoped_to_asset_witness:
  "reachable demo_services demo_store \<and>
   demo_store ''c1'' =
     Some \<lparr>asset_id = Some ''A'', history = [],
           rag_chain = Some \<lparr>retriever = \<lparr>kw_k = 2, kw_filter = FieldIn ''asset'' [''A'']\<rparr>,
               input_messages_key = ''input'',
               history_messages_key = ''chat_history'',
               output_messages_key = ''answer''\<rparr>\<rparr> \<and>
   map (\<lambda>d. metadata d ''asset'') (map snd demo_index) = [Some (MStr ''B''), Some (MStr ''A'')] \<and>
   fst (fst (rag_stream demo_services
      \<lparr>retriever = \<lparr>kw_k = 2, kw_filter = FieldIn ''asset'' [''A'']\<rparr>,
       input_messages_key = ''input'',
       history_messages_key = ''chat_history'',
       output_messages_key = ''answer''\<rparr> demo_index [104, 105] ''c1'' demo_store)) =
     [\<lparr>chunk_context = Some [\<lparr>page_content = [104, 105],
          metadata = [''asset'' \<mapsto> MStr ''A'', ''source'' \<mapsto> MStr ''a.txt'']\<rparr>],
        chunk_answer = None\<rparr>,
      \<lparr>chunk_context = None, chunk_answer = Some [79]\<rparr>,
      \<lparr>chunk_context = None, chunk_answer = Some []\<rparr>,
      \<lparr>chunk_context = None, chunk_answer = Some [75, 233]\<rparr>] \<and>
   chat_message
     (demo_services\<lparr>similarity_search := \<lambda>i q kw.
        if kw = \<lparr>kw_k = 2, kw_filter = FieldIn ''asset'' [''A'']\<rparr>
        then similarity_search demo_services i q kw
        else Inl (LibError ''another request'')\<rparr>)
     demo_index \<lparr>chat_id = ''c1'', message = [104, 105]\<rparr> demo_store =
     chat_message demo_services demo_index \<lparr>chat_id = ''c1'', message = [104, 105]\<rparr> demo_store \<and>
   chat_message
     (demo_services\<lparr>llm_answer := \<lambda>docs hist q.
        if list_all (\<lambda>x. metadata x ''asset'' = Some (MStr ''A'')) docs
        then llm_answer demo_services docs hist q
        else ([[76, 69, 65, 75]], None)\<rparr>)
     demo_index \<lparr>chat_id = ''c1'', message = [104, 105]\<rparr> demo_store =
     chat_message demo_services demo_index \<lparr>chat_id = ''c1'', message = [104, 105]\<rparr> demo_store"
proof -
  have bound: "asset_id \<lparr>asset_id = Some ''A'', history = [],
       rag_chain = Some \<lparr>retriever = \<lparr>kw_k = 2, kw_filter = FieldIn ''asset'' [''A'']\<rparr>,
           input_messages_key = ''input'',
           history_messages_key = ''chat_history'',
           output_messages_key = ''answer''\<rparr>\<rparr> = Some ''A''"
    by simp
  note scoped = retrieval_scoped_to_asset
    [OF demo_search_honours_filter demo_reachable demo_store_c1 bound,
      of demo_index "[104, 105]"]
  from scoped have requests: "\<forall>search'.
       (\<forall>i q. search' i q \<lparr>kw_k = 2, kw_filter = FieldIn ''asset'' [''A'']\<rparr> =
          similarity_search demo_services i q
            \<lparr>kw_k = 2, kw_filter = FieldIn ''asset'' [''A'']\<rparr>) \<longrightarrow>
       chat_message (demo_services\<lparr>similarity_search := search'\<rparr>) demo_index
         \<lparr>chat_id = ''c1'', message = [104, 105]\<rparr> demo_store =
         chat_message demo_services demo_index \<lparr>chat_id = ''c1'', message = [104, 105]\<rparr>
           demo_store"
    by blast
  from scoped have isolated: "\<forall>answer'.
       (\<forall>docs hist q.
          length docs \<le> 2 \<and> (\<forall>x \<in> set docs. metadata x ''asset'' = Some (MStr ''A'')) \<longrightarrow>
          answer' docs hist q = llm_answer demo_services docs hist q) \<longrightarrow>
       chat_message (demo_services\<lparr>llm_answer := answer'\<rparr>) demo_index
         \<lparr>chat_id = ''c1'', message = [104, 105]\<rparr> demo_store =
         chat_message demo_services demo_index \<lparr>chat_id = ''c1'', message = [104, 105]\<rparr>
           demo_store"
    by blast
  have a: "chat_message
     (demo_services\<lparr>similarity_search := \<lambda>i q kw.
        if kw = \<lparr>kw_k = 2, kw_filter = FieldIn ''asset'' [''A'']\<rparr>
        then similarity_search demo_services i q kw
        else Inl (LibError ''another request'')\<rparr>)
     demo_index \<lparr>chat_id = ''c1'', message = [104, 105]\<rparr> demo_store =
     chat_message demo_services demo_index \<lparr>chat_id = ''c1'', message = [104, 105]\<rparr> demo_store"
    by (rule requests [rule_format]) simp
  have b: "chat_message
     (demo_services\<lparr>llm_answer := \<lambda>docs hist q.
        if list_all (\<lambda>x. metadata x ''asset'' = Some (MStr ''A'')) docs
        then llm_answer demo_services docs hist q
        else ([[76, 69, 65, 75]], None)\<rparr>)
     demo_index \<lparr>chat_id = ''c1'', message = [104, 105]\<rparr> demo_store =
     chat_message demo_services demo_index \<lparr>chat_id = ''c1'', message = [104, 105]\<rparr> demo_store"
    by (rule isolated [rule_format]) (simp add: list_all_iff)
  have c: "map (\<lambda>d. metadata d ''asset'') (map snd demo_index) =
      [Some (MStr ''B''), Some (MStr ''A'')]"
    by (simp add: demo_index_def)
  from demo_reachable demo_store_c1 demo_rag_stream a b c show ?thesis
    by (simp only: simp_thms)
qed

end
